theory Spec2Isabelle
  imports Main "HOL-Library.Word" "HOL-Library.Sublist"
begin

section \<open>Data model (src/types.ts)\<close>

text \<open>
  Strings are \<open>string\<close> (lists of 8-bit characters). An optional field of a TypeScript
  interface (\<open>f?: T\<close>) is a field of type \<open>T option\<close>; \<open>None\<close> stands for an absent
  key and for the value \<open>undefined\<close> alike, which the code under study never tells apart.
\<close>

text \<open>
  \<open>GeneratedImage\<close>: \<open>{ mimeType: string; data: string }\<close>. The anonymous object type of
  \<open>GeminiInlineDataPart.inlineData\<close> has the same two fields, and TypeScript types are
  structural, so the one record serves for both.
\<close>

record GeneratedImage =
  mimeType :: string
  data :: string

text \<open>
  \<open>GeminiPart = GeminiTextPart | GeminiInlineDataPart\<close>. A TypeScript union of object
  types is not exclusive, and the parts of a response are whatever JSON the upstream
  service sent; the code tells the variants apart at run time by key presence
  (\<open>"text" in part\<close>, \<open>"inlineData" in part\<close>). A part is therefore a record of the two
  keys, each present or absent. The key \<open>text\<close> is spelled \<open>ptext\<close> here.
\<close>

record GeminiPart =
  ptext :: "string option"
  inlineData :: "GeneratedImage option"

definition TextPart :: "string \<Rightarrow> GeminiPart" where
  "TextPart s = \<lparr>ptext = Some s, inlineData = None\<rparr>"

definition InlineDataPart :: "string \<Rightarrow> string \<Rightarrow> GeminiPart" where
  "InlineDataPart m d = \<lparr>ptext = None, inlineData = Some \<lparr>mimeType = m, data = d\<rparr>\<rparr>"

record GeminiContent =
  role :: "string option"
  parts :: "GeminiPart list"

record GenerationConfig =
  responseModalities :: "string list option"
  responseMimeType :: "string option"

record GeminiRequest =
  contents :: "GeminiContent list"
  generationConfig :: "GenerationConfig option"

record GeminiCandidate =
  content :: GeminiContent
  finishReason :: string
  cindex :: nat

text \<open>
  \<open>GeminiResponse\<close>. The interface declares \<open>candidates\<close> as required, but both callers
  test \<open>!response.candidates\<close> first, so the field is modelled as optional. Everything else
  follows the declared types: a candidate has its content, and the content its parts.
\<close>

record GeminiResponse =
  candidates :: "GeminiCandidate list option"
  modelVersion :: "string option"

text \<open>
  \<open>ImageGenerationResult\<close>. The keys \<open>text\<close> and \<open>finishReason\<close> are spelled \<open>rtext\<close> and
  \<open>rfinishReason\<close>.
\<close>

record ImageGenerationResult =
  success :: bool
  rtext :: "string option"
  image :: "GeneratedImage option"
  error :: "string option"
  model :: string
  rfinishReason :: "string option"

section \<open>Constants (src/constants.ts)\<close>

definition API_BASE_URL :: string where
  "API_BASE_URL = ''https://generativelanguage.googleapis.com/v1beta''"

definition API_TIMEOUT :: nat where
  "API_TIMEOUT = 60000"

definition GEMINI_MODELS_FLASH :: string where
  "GEMINI_MODELS_FLASH = ''gemini-2.0-flash-exp-image-generation''"

definition GEMINI_MODELS_PRO :: string where
  "GEMINI_MODELS_PRO = ''gemini-2.0-flash-exp''"

section \<open>JavaScript helpers\<close>

text \<open>The truthiness test \<open>!v\<close> on an optional string.\<close>

definition falsy :: "string option \<Rightarrow> bool" where
  "falsy v \<longleftrightarrow> (case v of None \<Rightarrow> True | Some s \<Rightarrow> s = [])"

text \<open>\<open>a || b\<close> on an optional string: the empty string and \<open>undefined\<close> are both falsy.\<close>

definition or_else :: "string option \<Rightarrow> string \<Rightarrow> string" where
  "or_else a b = (case a of None \<Rightarrow> b | Some s \<Rightarrow> if s = [] then b else s)"

text \<open>\<open>String.prototype.toLowerCase\<close> on the ASCII letters; every other character is kept.\<close>

definition lower_char :: "char \<Rightarrow> char" where
  "lower_char c =
     (case map_of (zip ''ABCDEFGHIJKLMNOPQRSTUVWXYZ'' ''abcdefghijklmnopqrstuvwxyz'') c of
        Some l \<Rightarrow> l
      | None \<Rightarrow> c)"

definition toLowerCase :: "string \<Rightarrow> string" where
  "toLowerCase s = map lower_char s"

text \<open>The decimal rendering of a non-negative integer in a template literal.\<close>

definition digit_char :: "nat \<Rightarrow> char" where
  "digit_char d = char_of (48 + d)"

fun decimal :: "nat \<Rightarrow> string" where
  "decimal n = (if n < 10 then [digit_char n] else decimal (n div 10) @ [digit_char (n mod 10)])"

declare decimal.simps [simp del]

text \<open>
  \<open>path.extname\<close> of Node.js, POSIX flavour (library code, not part of the repository):
  trailing slashes are dropped, the last path component is taken, and the extension runs
  from its last dot to its end. The result is empty when the component has no dot, when
  its last dot is its first character, and when the component is \<open>..\<close>.
\<close>

definition last_component :: "string \<Rightarrow> string" where
  "last_component p =
     rev (takeWhile (\<lambda>c. c \<noteq> CHR ''/'') (dropWhile (\<lambda>c. c = CHR ''/'') (rev p)))"

definition extname :: "string \<Rightarrow> string" where
  "extname p =
     (let b = last_component p;
          after = rev (takeWhile (\<lambda>c. c \<noteq> CHR ''.'') (rev b));
          stem = take (length b - length after - 1) b
      in if CHR ''.'' \<notin> set b \<or> stem = [] \<or> b = ''..'' then [] else CHR ''.'' # after)"

text \<open>\<open>Buffer.prototype.toString("base64")\<close> (library code): three bytes give four characters.\<close>

definition base64_alphabet :: string where
  "base64_alphabet = ''ABCDEFGHIJKLMNOPQRSTUVWXYZabcdefghijklmnopqrstuvwxyz0123456789+/''"

definition b64 :: "nat \<Rightarrow> char" where
  "b64 i = base64_alphabet ! (i mod 64)"

fun toBase64 :: "8 word list \<Rightarrow> string" where
  "toBase64 [] = []"
| "toBase64 [a] =
     (let n = unat a * 65536
      in [b64 (n div 262144), b64 (n div 4096), CHR ''='', CHR ''=''])"
| "toBase64 [a, b] =
     (let n = unat a * 65536 + unat b * 256
      in [b64 (n div 262144), b64 (n div 4096), b64 (n div 64), CHR ''=''])"
| "toBase64 (a # b # c # rest) =
     (let n = unat a * 65536 + unat b * 256 + unat c
      in [b64 (n div 262144), b64 (n div 4096), b64 (n div 64), b64 n] @ toBase64 rest)"

section \<open>Thrown values and the outside world\<close>

text \<open>
  What a \<open>catch\<close> clause may receive. An \<open>AxiosError\<close> carries the HTTP response when one
  arrived (its status and \<open>response.data?.error?.message\<close>), the error code and the
  message it has as an \<open>Error\<close>. \<open>JsError\<close> is any other instance of \<open>Error\<close> with its
  message; \<open>Thrown\<close> is a value that is not an \<open>Error\<close>, given by its \<open>String(...)\<close>.
\<close>

record AxiosResponse =
  status :: nat
  data_error_message :: "string option"

datatype thrown =
    AxiosError (ax_response: "AxiosResponse option") (ax_code: "string option") (ax_message: string)
  | JsError string
  | Thrown string

text \<open>One call of \<open>axios.post(url, request, {headers, params, timeout})\<close>.\<close>

record http_post =
  url :: string
  body :: GeminiRequest
  headers :: "(string \<times> string) list"
  params :: "(string \<times> string) list"
  timeout :: nat

text \<open>
  The environment of one call: the value of \<open>process.env.GEMINI_API_KEY\<close>, the outcome of
  \<open>readFile(path)\<close>, the outcome of the HTTP POST (the body of a 2xx response, or the
  rejection), and for a path and a base64 text the outcome of creating the parent
  directory of the path and writing the decoded bytes to it (\<open>None\<close>: both succeeded).
  Every function that may reach the network returns, next to its value, the list of POSTs
  it issued.
\<close>

record world =
  GEMINI_API_KEY :: "string option"
  readFile :: "string \<Rightarrow> thrown + 8 word list"
  axios_post :: "http_post \<Rightarrow> thrown + GeminiResponse"
  writeFile :: "string \<Rightarrow> string \<Rightarrow> thrown option"

section \<open>The client (services/gemini-client.ts)\<close>

definition mimeTypes :: "(string \<times> string) list" where
  "mimeTypes =
     [(''.png'', ''image/png''),
      (''.jpg'', ''image/jpeg''),
      (''.jpeg'', ''image/jpeg''),
      (''.webp'', ''image/webp''),
      (''.gif'', ''image/gif'')]"

definition getMimeTypeFromPath :: "string \<Rightarrow> string" where
  "getMimeTypeFromPath filePath =
     (let ext = toLowerCase (extname filePath)
      in or_else (map_of mimeTypes ext) ''image/png'')"

definition getApiKey :: "world \<Rightarrow> thrown + string" where
  "getApiKey w =
     (case GEMINI_API_KEY w of
        None \<Rightarrow> Inl (JsError (''GEMINI_API_KEY environment variable is required. '' @
                              ''Get your API key from https://aistudio.google.com/apikey''))
      | Some apiKey \<Rightarrow>
          if apiKey = []
          then Inl (JsError (''GEMINI_API_KEY environment variable is required. '' @
                             ''Get your API key from https://aistudio.google.com/apikey''))
          else Inr apiKey)"

definition makeGeminiRequest ::
    "world \<Rightarrow> string \<Rightarrow> GeminiRequest \<Rightarrow> (thrown + GeminiResponse) \<times> http_post list" where
  "makeGeminiRequest w mdl request =
     (case getApiKey w of
        Inl e \<Rightarrow> (Inl e, [])
      | Inr apiKey \<Rightarrow>
          (let call = \<lparr>url = API_BASE_URL @ ''/models/'' @ mdl @ '':generateContent'',
                       body = request,
                       headers = [(''Content-Type'', ''application/json'')],
                       params = [(''key'', apiKey)],
                       timeout = API_TIMEOUT\<rparr>
           in (axios_post w call, [call])))"

text \<open>\<open>e instanceof Error ? e.message : String(e)\<close>; an \<open>AxiosError\<close> is an \<open>Error\<close>.\<close>

definition error_text :: "thrown \<Rightarrow> string" where
  "error_text e = (case e of AxiosError r c m \<Rightarrow> m | JsError m \<Rightarrow> m | Thrown s \<Rightarrow> s)"

definition handleApiError :: "thrown \<Rightarrow> string" where
  "handleApiError err =
     (case err of
        AxiosError (Some resp) c m \<Rightarrow>
          (let st = status resp; msg = data_error_message resp
           in if st = 400 then
                ''Error: Invalid request. '' @ or_else msg ''Check your prompt and parameters.''
              else if st = 401 then
                ''Error: Invalid API key. Please check your GEMINI_API_KEY environment variable.''
              else if st = 403 then
                ''Error: Access denied. '' @
                  or_else msg ''Your API key may not have access to this model.''
              else if st = 404 then
                ''Error: Model not found. Please check the model name.''
              else if st = 429 then
                ''Error: Rate limit exceeded. Please wait before making more requests.''
              else if st = 500 then
                ''Error: Gemini API server error. Please try again later.''
              else if st = 503 then
                ''Error: Gemini API service unavailable. Please try again later.''
              else
                ''Error: API request failed with status '' @ decimal st @ ''. '' @ or_else msg [])
      | AxiosError None c m \<Rightarrow>
          if c = Some ''ECONNABORTED'' then
            ''Error: Request timed out. Image generation can take a while - please try again.''
          else if c = Some ''ENOTFOUND'' then
            ''Error: Unable to reach Gemini API. Please check your network connection.''
          else ''Error: '' @ error_text err
      | _ \<Rightarrow> ''Error: '' @ error_text err)"

text \<open>
  The body of the loop \<open>for (const part of candidate.content.parts)\<close>, the same in
  \<open>generateImage\<close> and \<open>editImage\<close>: the \<open>text\<close> key is tested first, the \<open>inlineData\<close>
  key only when \<open>text\<close> is absent.
\<close>

definition scanPart :: "ImageGenerationResult \<Rightarrow> GeminiPart \<Rightarrow> ImageGenerationResult" where
  "scanPart result part =
     (case ptext part of
        Some t \<Rightarrow> result\<lparr>rtext := Some t\<rparr>
      | None \<Rightarrow>
          (case inlineData part of
             Some d \<Rightarrow> result\<lparr>image := Some \<lparr>mimeType = mimeType d, data = data d\<rparr>\<rparr>
           | None \<Rightarrow> result))"

text \<open>
  What both functions do with the response once \<open>makeGeminiRequest\<close> has returned: the
  two copies of this code differ in the string \<open>noImage\<close> only, which is a parameter here.
\<close>

definition extractResult :: "string \<Rightarrow> string \<Rightarrow> GeminiResponse \<Rightarrow> ImageGenerationResult" where
  "extractResult noImage mdl response =
     (case candidates response of
        None \<Rightarrow>
          \<lparr>success = False, rtext = None, image = None,
           error = Some ''No candidates returned from the API'', model = mdl,
           rfinishReason = None\<rparr>
      | Some [] \<Rightarrow>
          \<lparr>success = False, rtext = None, image = None,
           error = Some ''No candidates returned from the API'', model = mdl,
           rfinishReason = None\<rparr>
      | Some (candidate # _) \<Rightarrow>
          (let result0 = \<lparr>success = True, rtext = None, image = None, error = None,
                          model = mdl, rfinishReason = Some (finishReason candidate)\<rparr>;
               result = foldl scanPart result0 (parts (content candidate))
           in if image result = None
              then \<lparr>success = False, rtext = rtext result, image = None,
                    error = Some noImage, model = mdl, rfinishReason = None\<rparr>
              else result))"

text \<open>The result of a \<open>catch\<close> clause: \<open>{ success: false, error, model }\<close>.\<close>

definition failed :: "string \<Rightarrow> string \<Rightarrow> ImageGenerationResult" where
  "failed msg mdl =
     \<lparr>success = False, rtext = None, image = None, error = Some msg, model = mdl,
      rfinishReason = None\<rparr>"

text \<open>The \<open>request\<close> constant of \<open>generateImage\<close>.\<close>

definition generateRequest :: "string \<Rightarrow> GeminiRequest" where
  "generateRequest prompt =
     \<lparr>contents = [\<lparr>role = None, parts = [TextPart prompt]\<rparr>],
      generationConfig =
        Some \<lparr>responseModalities = Some [''TEXT'', ''IMAGE''], responseMimeType = None\<rparr>\<rparr>"

definition generateImage ::
    "world \<Rightarrow> string \<Rightarrow> string \<Rightarrow> ImageGenerationResult \<times> http_post list" where
  "generateImage w prompt mdl =
     (let request = generateRequest prompt;
          (r, posts) = makeGeminiRequest w mdl request
      in (case r of
            Inl e \<Rightarrow> failed (handleApiError e) mdl
          | Inr response \<Rightarrow>
              extractResult
                ''No image was generated. The model may have refused or encountered an issue.''
                mdl response,
          posts))"

text \<open>The \<open>request\<close> constant of \<open>editImage\<close>.\<close>

definition editRequest :: "string \<Rightarrow> string \<Rightarrow> string \<Rightarrow> GeminiRequest" where
  "editRequest prompt imageMimeType imageBase64 =
     \<lparr>contents =
        [\<lparr>role = None, parts = [TextPart prompt, InlineDataPart imageMimeType imageBase64]\<rparr>],
      generationConfig =
        Some \<lparr>responseModalities = Some [''TEXT'', ''IMAGE''], responseMimeType = None\<rparr>\<rparr>"

definition editImage ::
    "world \<Rightarrow> string \<Rightarrow> string \<Rightarrow> string \<Rightarrow> ImageGenerationResult \<times> http_post list" where
  "editImage w prompt imagePath mdl =
     (case readFile w imagePath of
        Inl err \<Rightarrow> (failed (''Failed to read image file: '' @ error_text err) mdl, [])
      | Inr imageBuffer \<Rightarrow>
          (let imageBase64 = toBase64 imageBuffer;
               imageMimeType = getMimeTypeFromPath imagePath;
               request = editRequest prompt imageMimeType imageBase64;
               (r, posts) = makeGeminiRequest w mdl request
           in (case r of
                 Inl e \<Rightarrow> failed (handleApiError e) mdl
               | Inr response \<Rightarrow>
                   extractResult
                     ''No edited image was generated. The model may have refused or encountered an issue.''
                     mdl response,
               posts)))"

section \<open>Server startup (index.ts)\<close>

text \<open>
  \<open>main\<close> and the \<open>catch\<close> attached to it. The outcome of \<open>server.connect(transport)\<close> is a
  parameter (\<open>None\<close>: it resolved). The result is the state of the process with the lines
  written to standard error; the line printed for a caught error is given by its message.
\<close>

datatype startup = Running "string list" | Exited nat "string list"

definition main :: "world \<Rightarrow> thrown option \<Rightarrow> startup" where
  "main w connect_outcome =
     (let warnings =
            (if falsy (GEMINI_API_KEY w)
             then [''WARNING: GEMINI_API_KEY environment variable is not set.'',
                   ''Get your API key from https://aistudio.google.com/apikey'',
                   ''The server will start but API calls will fail without a valid key.'']
             else [])
      in case connect_outcome of
           None \<Rightarrow> Running (warnings @ [''Nanobanana MCP server running via stdio''])
         | Some e \<Rightarrow> Exited 1 (warnings @ [''Server error: '' @ error_text e]))"

section \<open>Tool input schemas (schemas/index.ts)\<close>

text \<open>
  The arguments of a tool call are a JSON object: a list of keys with their values. A zod
  schema either returns the parsed value or the list of issues it found. Lengths are
  counted in characters of \<open>string\<close>.
\<close>

datatype jvalue = JString string | JNumber int | JBool bool | JNull

type_synonym json_object = "(string \<times> jvalue) list"

datatype zod_issue =
    Required string
  | InvalidType string
  | TooSmall string string
  | TooBig string string
  | InvalidEnumValue string
  | UnrecognizedKeys "string list"

text \<open>
  \<open>z.string()\<close> with an optional \<open>.min(n, message)\<close> and an optional \<open>.max(n, message)\<close>, at the
  key \<open>key\<close>. Without \<open>.optional()\<close> an absent key is an issue.
\<close>

definition z_string ::
    "string \<Rightarrow> (nat \<times> string) option \<Rightarrow> (nat \<times> string) option \<Rightarrow> jvalue option
       \<Rightarrow> zod_issue list + string" where
  "z_string key minimum maximum v =
     (case v of
        None \<Rightarrow> Inl [Required key]
      | Some (JString s) \<Rightarrow>
          (let small = (case minimum of
                          Some (n, msg) \<Rightarrow> if length s < n then [TooSmall key msg] else []
                        | None \<Rightarrow> []);
               big = (case maximum of
                        Some (n, msg) \<Rightarrow> if n < length s then [TooBig key msg] else []
                      | None \<Rightarrow> [])
           in if small @ big = [] then Inr s else Inl (small @ big))
      | Some _ \<Rightarrow> Inl [InvalidType key])"

text \<open>\<open>ModelSchema\<close>: \<open>z.enum([FLASH, PRO]).default(FLASH)\<close>.\<close>

definition ModelSchema :: "string \<Rightarrow> jvalue option \<Rightarrow> zod_issue list + string" where
  "ModelSchema key v =
     (case v of
        None \<Rightarrow> Inr GEMINI_MODELS_FLASH
      | Some (JString s) \<Rightarrow>
          if s \<in> set [GEMINI_MODELS_FLASH, GEMINI_MODELS_PRO] then Inr s
          else Inl [InvalidEnumValue key]
      | Some _ \<Rightarrow> Inl [InvalidType key])"

text \<open>\<open>.strict()\<close>: keys outside the shape are an issue.\<close>

definition strict_keys :: "string list \<Rightarrow> json_object \<Rightarrow> zod_issue list + unit" where
  "strict_keys shape raw =
     (let extra = filter (\<lambda>k. k \<notin> set shape) (map fst raw)
      in if extra = [] then Inr () else Inl [UnrecognizedKeys extra])"

text \<open>
  \<open>z.object\<close> parses every key of its shape and gathers the issues of all of them: the
  object is valid when each part is.
\<close>

definition issues :: "zod_issue list + 'a \<Rightarrow> zod_issue list" where
  "issues r = (case r of Inl found \<Rightarrow> found | Inr _ \<Rightarrow> [])"

definition z_both ::
    "zod_issue list + 'a \<Rightarrow> zod_issue list + 'b \<Rightarrow> zod_issue list + ('a \<times> 'b)" where
  "z_both a b =
     (case a of
        Inr x \<Rightarrow> (case b of Inr y \<Rightarrow> Inr (x, y) | Inl found \<Rightarrow> Inl found)
      | Inl found \<Rightarrow> Inl (found @ issues b))"

text \<open>\<open>GenerateImageInput = z.infer<typeof GenerateImageSchema>\<close>; the keys carry the prefix \<open>g_\<close>.\<close>

record GenerateImageInput =
  g_prompt :: string
  g_model :: string
  g_output_path :: string

definition GenerateImageSchema :: "json_object \<Rightarrow> zod_issue list + GenerateImageInput" where
  "GenerateImageSchema raw =
     (case z_both
             (z_string ''prompt'' (Some (1, ''Prompt is required''))
                (Some (10000, ''Prompt must not exceed 10000 characters''))
                (map_of raw ''prompt''))
          (z_both
             (ModelSchema ''model'' (map_of raw ''model''))
          (z_both
             (z_string ''output_path'' (Some (1, ''Output path is required'')) None
                (map_of raw ''output_path''))
             (strict_keys [''prompt'', ''model'', ''output_path''] raw))) of
        Inl found \<Rightarrow> Inl found
      | Inr (p, m, out, u) \<Rightarrow> Inr \<lparr>g_prompt = p, g_model = m, g_output_path = out\<rparr>)"

text \<open>\<open>EditImageInput = z.infer<typeof EditImageSchema>\<close>; the keys carry the prefix \<open>e_\<close>.\<close>

record EditImageInput =
  e_prompt :: string
  e_image_path :: string
  e_model :: string
  e_output_path :: string

definition EditImageSchema :: "json_object \<Rightarrow> zod_issue list + EditImageInput" where
  "EditImageSchema raw =
     (case z_both
             (z_string ''prompt'' (Some (1, ''Prompt is required''))
                (Some (10000, ''Prompt must not exceed 10000 characters''))
                (map_of raw ''prompt''))
          (z_both
             (z_string ''image_path'' (Some (1, ''Image path is required'')) None
                (map_of raw ''image_path''))
          (z_both
             (ModelSchema ''model'' (map_of raw ''model''))
          (z_both
             (z_string ''output_path'' (Some (1, ''Output path is required'')) None
                (map_of raw ''output_path''))
             (strict_keys [''prompt'', ''image_path'', ''model'', ''output_path''] raw)))) of
        Inl found \<Rightarrow> Inl found
      | Inr (p, i, m, out, u) \<Rightarrow>
          Inr \<lparr>e_prompt = p, e_image_path = i, e_model = m, e_output_path = out\<rparr>)"

section \<open>The generate tool (index.ts)\<close>

text \<open>
  \<open>saveImageToFile\<close>: \<open>mkdir\<close> of the parent directory, then \<open>writeFile\<close> of the decoded bytes;
  \<open>None\<close> when it returns, the thrown value otherwise.
\<close>

definition saveImageToFile :: "world \<Rightarrow> string \<Rightarrow> string \<Rightarrow> string \<Rightarrow> thrown option" where
  "saveImageToFile w base64Data outputPath mime = writeFile w outputPath base64Data"

text \<open>
  What a tool call gives back: the rejection of its arguments by the input schema, or the
  object that the handler serialises with \<open>JSON.stringify\<close>, whose keys with the value
  \<open>undefined\<close> are left out.
\<close>

datatype tool_result = InvalidParams "zod_issue list" | Content json_object

definition optional_key :: "string \<Rightarrow> string option \<Rightarrow> json_object" where
  "optional_key k v = (case v of None \<Rightarrow> [] | Some s \<Rightarrow> [(k, JString s)])"

text \<open>
  The handler of \<open>nanobanana_generate_image\<close>. It returns the reported object, the POSTs
  issued and the files written (path and base64 text).
\<close>

definition generate_image_handler ::
    "world \<Rightarrow> GenerateImageInput \<Rightarrow> tool_result \<times> http_post list \<times> (string \<times> string) list" where
  "generate_image_handler w args =
     (let (result, posts) = generateImage w (g_prompt args) (g_model args)
      in case (if success result then image result else None) of
           None \<Rightarrow>
             (Content ([(''success'', JBool False),
                        (''error'', JString (or_else (error result) ''Unknown error occurred'')),
                        (''model'', JString (model result))] @
                       optional_key ''text'' (rtext result)),
              posts, [])
         | Some img \<Rightarrow>
             if g_output_path args \<noteq> [] then
               (case saveImageToFile w (data img) (g_output_path args) (mimeType img) of
                  None \<Rightarrow>
                    (Content ([(''success'', JBool True),
                               (''saved_to'', JString (g_output_path args)),
                               (''mime_type'', JString (mimeType img)),
                               (''model'', JString (model result))] @
                              optional_key ''text'' (rtext result)),
                     posts, [(g_output_path args, data img)])
                | Some err \<Rightarrow>
                    (Content [(''success'', JBool False),
                              (''error'', JString (''Failed to save image: '' @ error_text err)),
                              (''model'', JString (model result))],
                     posts, []))
             else
               (Content ([(''success'', JBool True),
                          (''image_base64'', JString (data img)),
                          (''mime_type'', JString (mimeType img)),
                          (''model'', JString (model result))] @
                         optional_key ''text'' (rtext result)),
                posts, []))"

text \<open>
  The tool as registered with \<open>inputSchema: GenerateImageSchema\<close>: the server parses the
  arguments with the schema and calls the handler with the parsed value only.
\<close>

definition nanobanana_generate_image ::
    "world \<Rightarrow> json_object \<Rightarrow> tool_result \<times> http_post list \<times> (string \<times> string) list" where
  "nanobanana_generate_image w raw =
     (case GenerateImageSchema raw of
        Inl found \<Rightarrow> (InvalidParams found, [], [])
      | Inr args \<Rightarrow> generate_image_handler w args)"

section \<open>Vocabulary of the properties\<close>

text \<open>
  How the loop classifies a part: it is a text part when it has the \<open>text\<close> key, and an
  inline-data part when it has the \<open>inlineData\<close> key and no \<open>text\<close> key.
\<close>

definition is_text_part :: "GeminiPart \<Rightarrow> bool" where
  "is_text_part p \<longleftrightarrow> ptext p \<noteq> None"

definition is_inline_part :: "GeminiPart \<Rightarrow> bool" where
  "is_inline_part p \<longleftrightarrow> ptext p = None \<and> inlineData p \<noteq> None"

definition last_text :: "GeminiPart list \<Rightarrow> string option" where
  "last_text ps =
     (let ts = filter is_text_part ps in if ts = [] then None else ptext (last ts))"

definition last_inline :: "GeminiPart list \<Rightarrow> GeneratedImage option" where
  "last_inline ps =
     (let ds = filter is_inline_part ps in if ds = [] then None else inlineData (last ds))"

text \<open>
  The call received \<open>response\<close> from upstream: \<open>makeGeminiRequest\<close> returned it for the request
  the call builds (and, for an edit, the image file was read).
\<close>

definition generate_receives :: "world \<Rightarrow> string \<Rightarrow> string \<Rightarrow> GeminiResponse \<Rightarrow> bool" where
  "generate_receives w prompt mdl response \<longleftrightarrow>
     fst (makeGeminiRequest w mdl (generateRequest prompt)) = Inr response"

definition edit_receives ::
    "world \<Rightarrow> string \<Rightarrow> string \<Rightarrow> string \<Rightarrow> GeminiResponse \<Rightarrow> bool" where
  "edit_receives w prompt imagePath mdl response \<longleftrightarrow>
     (case readFile w imagePath of
        Inl err \<Rightarrow> False
      | Inr imageBuffer \<Rightarrow>
          fst (makeGeminiRequest w mdl
                 (editRequest prompt (getMimeTypeFromPath imagePath) (toBase64 imageBuffer)))
            = Inr response)"

section \<open>Example inputs\<close>

text \<open>
  A world with an API key, one readable image file, one path that cannot be written and a
  fixed answer to every POST; the same world without the key; and upstream responses: a
  refusal (text only), a success (text and image), one without candidates, and one whose
  only part has both keys.
\<close>

definition example_world :: "thrown + GeminiResponse \<Rightarrow> world" where
  "example_world answer =
     \<lparr>GEMINI_API_KEY = Some ''test-key'',
      readFile = (\<lambda>p. if p = ''/tmp/cat.JPG'' then Inr [104, 105]
                       else Inl (JsError (''ENOENT: no such file or directory, open '' @ p))),
      axios_post = (\<lambda>c. answer),
      writeFile = (\<lambda>p b. if p = ''/proc/out.png'' then Some (JsError ''EACCES: permission denied'')
                         else None)\<rparr>"

definition candidate_of :: "GeminiPart list \<Rightarrow> GeminiCandidate" where
  "candidate_of ps =
     \<lparr>content = \<lparr>role = Some ''model'', parts = ps\<rparr>, finishReason = ''STOP'', cindex = 0\<rparr>"

definition refusal_response :: GeminiResponse where
  "refusal_response =
     \<lparr>candidates = Some [candidate_of [TextPart ''I cannot create that image.'']],
      modelVersion = None\<rparr>"

definition balloon_response :: GeminiResponse where
  "balloon_response =
     \<lparr>candidates =
        Some [candidate_of
                [TextPart ''Here is your balloon'', InlineDataPart ''image/png'' ''aGk='']],
      modelVersion = None\<rparr>"

definition no_candidates_response :: "GeminiCandidate list option \<Rightarrow> GeminiResponse" where
  "no_candidates_response cands = \<lparr>candidates = cands, modelVersion = None\<rparr>"

definition both_keys_part :: GeminiPart where
  "both_keys_part =
     \<lparr>ptext = Some ''caption'', inlineData = Some \<lparr>mimeType = ''image/png'', data = ''aGk=''\<rparr>\<rparr>"

definition both_keys_response :: GeminiResponse where
  "both_keys_response = \<lparr>candidates = Some [candidate_of [both_keys_part]], modelVersion = None\<rparr>"

definition keyless_world :: world where
  "keyless_world = (example_world (Inr balloon_response))\<lparr>GEMINI_API_KEY := None\<rparr>"

section \<open>The scan over the parts\<close>

lemma scanPart_keeps:
  "success (scanPart r p) = success r" "model (scanPart r p) = model r"
  "error (scanPart r p) = error r" "rfinishReason (scanPart r p) = rfinishReason r"
  by (simp_all add: scanPart_def split: option.splits)

lemma scan_keeps:
  "success (foldl scanPart r ps) = success r \<and> model (foldl scanPart r ps) = model r \<and>
   error (foldl scanPart r ps) = error r \<and> rfinishReason (foldl scanPart r ps) = rfinishReason r"
  by (induction ps arbitrary: r) (simp_all add: scanPart_keeps)

lemma scan_text:
  "rtext (foldl scanPart r ps) = (case last_text ps of None \<Rightarrow> rtext r | Some t \<Rightarrow> Some t)"
proof (induction ps rule: rev_induct)
  case Nil
  show ?case by (simp add: last_text_def)
next
  case (snoc p ps)
  show ?case
  proof (cases "ptext p")
    case None
    then have "rtext (scanPart (foldl scanPart r ps) p) = rtext (foldl scanPart r ps)"
      by (simp add: scanPart_def split: option.splits)
    moreover from None have "last_text (ps @ [p]) = last_text ps"
      by (simp add: last_text_def is_text_part_def)
    ultimately show ?thesis using snoc by simp
  next
    case (Some t)
    then have "rtext (scanPart (foldl scanPart r ps) p) = Some t"
      by (simp add: scanPart_def)
    moreover from Some have "last_text (ps @ [p]) = Some t"
      by (simp add: last_text_def is_text_part_def)
    ultimately show ?thesis by simp
  qed
qed

lemma scan_image:
  "image (foldl scanPart r ps) = (case last_inline ps of None \<Rightarrow> image r | Some d \<Rightarrow> Some d)"
proof (induction ps rule: rev_induct)
  case Nil
  show ?case by (simp add: last_inline_def)
next
  case (snoc p ps)
  show ?case
  proof (cases "is_inline_part p")
    case False
    then have "image (scanPart (foldl scanPart r ps) p) = image (foldl scanPart r ps)"
      by (auto simp add: scanPart_def is_inline_part_def split: option.splits)
    moreover from False have "last_inline (ps @ [p]) = last_inline ps"
      by (simp add: last_inline_def)
    ultimately show ?thesis using snoc by simp
  next
    case True
    then obtain d where d: "ptext p = None" "inlineData p = Some d"
      by (auto simp: is_inline_part_def)
    then have "image (scanPart (foldl scanPart r ps) p) = Some d"
      by (simp add: scanPart_def)
    moreover from True d have "last_inline (ps @ [p]) = Some d"
      by (simp add: last_inline_def)
    ultimately show ?thesis by simp
  qed
qed

lemma last_inline_None: "last_inline ps = None \<longleftrightarrow> (\<forall>p\<in>set ps. \<not> is_inline_part p)"
proof (induction ps rule: rev_induct)
  case Nil
  show ?case by (simp add: last_inline_def)
next
  case (snoc p ps)
  show ?case
  proof (cases "is_inline_part p")
    case True
    then show ?thesis
      by (auto simp: last_inline_def is_inline_part_def)
  next
    case False
    then have "last_inline (ps @ [p]) = last_inline ps"
      by (simp add: last_inline_def)
    with False snoc show ?thesis by simp
  qed
qed

lemma extractResult_cases:
  "extractResult noImage mdl response =
     (case candidates response of
        None \<Rightarrow> failed ''No candidates returned from the API'' mdl
      | Some [] \<Rightarrow> failed ''No candidates returned from the API'' mdl
      | Some (c # cs) \<Rightarrow>
          (case last_inline (parts (content c)) of
             None \<Rightarrow> (failed noImage mdl)\<lparr>rtext := last_text (parts (content c))\<rparr>
           | Some d \<Rightarrow>
               \<lparr>success = True, rtext = last_text (parts (content c)), image = Some d,
                error = None, model = mdl, rfinishReason = Some (finishReason c)\<rparr>))"
  apply (simp add: extractResult_def failed_def Let_def scan_image scan_text
      split: option.splits list.splits)
  apply (intro allI impI conjI)
  apply (rule ImageGenerationResult.equality)
  apply (simp_all add: scan_image scan_text scan_keeps)
  done

lemma generateImage_received:
  "generate_receives w prompt mdl response \<Longrightarrow>
   fst (generateImage w prompt mdl) =
     extractResult ''No image was generated. The model may have refused or encountered an issue.''
       mdl response"
  by (auto simp add: generate_receives_def generateImage_def Let_def split: prod.splits)

lemma editImage_received:
  "edit_receives w prompt imagePath mdl response \<Longrightarrow>
   fst (editImage w prompt imagePath mdl) =
     extractResult
       ''No edited image was generated. The model may have refused or encountered an issue.''
       mdl response"
  by (auto simp add: edit_receives_def editImage_def Let_def split: prod.splits sum.splits)

lemma extractResult_invariant:
  "success (extractResult noImage mdl response) \<longleftrightarrow> image (extractResult noImage mdl response) \<noteq> None"
  by (simp add: extractResult_cases failed_def split: option.splits list.splits)


lemma generateImage_fst:
  "fst (generateImage w prompt mdl) =
     (case fst (makeGeminiRequest w mdl (generateRequest prompt)) of
        Inl e \<Rightarrow> failed (handleApiError e) mdl
      | Inr response \<Rightarrow>
          extractResult
            ''No image was generated. The model may have refused or encountered an issue.''
            mdl response)"
  by (simp add: generateImage_def Let_def split: prod.splits)

lemma editImage_fst:
  "fst (editImage w prompt imagePath mdl) =
     (case readFile w imagePath of
        Inl err \<Rightarrow> failed (''Failed to read image file: '' @ error_text err) mdl
      | Inr imageBuffer \<Rightarrow>
          (case fst (makeGeminiRequest w mdl
                       (editRequest prompt (getMimeTypeFromPath imagePath) (toBase64 imageBuffer))) of
             Inl e \<Rightarrow> failed (handleApiError e) mdl
           | Inr response \<Rightarrow>
               extractResult
                 ''No edited image was generated. The model may have refused or encountered an issue.''
                 mdl response))"
  by (simp add: editImage_def Let_def split: prod.splits sum.splits)

lemmas example_defs =
  generateImage_def editImage_def example_world_def refusal_response_def balloon_response_def
  makeGeminiRequest_def getApiKey_def extractResult_def scanPart_def TextPart_def
  InlineDataPart_def candidate_of_def Let_def failed_def generateRequest_def editRequest_def
  generate_receives_def edit_receives_def

section \<open>Properties of the results\<close>

text \<open>
  Claim C1. Whatever the environment, the file system and the upstream service answer
  (a response, a rejection, a missing key, an unreadable file), the result of
  \<open>generateImage\<close> and of \<open>editImage\<close> has \<open>success = true\<close> exactly when its \<open>image\<close> is
  present; so a result with a text and no image has \<open>success = false\<close>.
\<close>

theorem success_iff_image_present:
  "let g = fst (generateImage w prompt mdl); e = fst (editImage w prompt' imagePath mdl')
   in (success g \<longleftrightarrow> image g \<noteq> None) \<and> (success e \<longleftrightarrow> image e \<noteq> None) \<and>
      (rtext g \<noteq> None \<and> image g = None \<longrightarrow> \<not> success g) \<and>
      (rtext e \<noteq> None \<and> image e = None \<longrightarrow> \<not> success e)"
proof -
  have g: "success (fst (generateImage w prompt mdl)) \<longleftrightarrow>
           image (fst (generateImage w prompt mdl)) \<noteq> None"
    by (simp add: generateImage_fst extractResult_invariant failed_def split: sum.splits)
  have e: "success (fst (editImage w prompt' imagePath mdl')) \<longleftrightarrow>
           image (fst (editImage w prompt' imagePath mdl')) \<noteq> None"
    by (simp add: editImage_fst extractResult_invariant failed_def split: sum.splits)
  from g e show ?thesis by (simp add: Let_def)
qed

theorem success_iff_image_present_witness:
  "let g = fst (generateImage (example_world (Inr refusal_response)) ''disallowed content''
                  GEMINI_MODELS_FLASH);
       e = fst (editImage (example_world (Inr refusal_response)) ''disallowed content''
                  ''/tmp/cat.JPG'' GEMINI_MODELS_PRO)
   in rtext g = Some ''I cannot create that image.'' \<and> image g = None \<and> \<not> success g \<and>
      rtext e = Some ''I cannot create that image.'' \<and> image e = None \<and> \<not> success e"
  using success_iff_image_present
    [of "example_world (Inr refusal_response)" "''disallowed content''" GEMINI_MODELS_FLASH
        "''disallowed content''" "''/tmp/cat.JPG''" GEMINI_MODELS_PRO]
  by (simp add: example_defs)

text \<open>
  A part of the data model has exactly one of the two keys; for such a part, to be an
  inline-data part is to have the \<open>inlineData\<close> key.
\<close>

lemma is_inline_part_one_key:
  "(ptext p = None) \<noteq> (inlineData p = None) \<Longrightarrow> is_inline_part p \<longleftrightarrow> inlineData p \<noteq> None"
  by (auto simp add: is_inline_part_def)

text \<open>
  Claim C2. When the first candidate of the response has at least one inline-data part (a
  part with the \<open>inlineData\<close> key and no \<open>text\<close> key), \<open>generateImage\<close> and \<open>editImage\<close> return
  \<open>success = true\<close>, the image of the last inline-data part in part order, the text of the
  last text part (none when there is no text part) and the candidate's \<open>finishReason\<close>.
\<close>

theorem image_part_extracted:
  assumes "candidates response = Some (c # cs)"
    and "\<exists>p\<in>set (parts (content c)). is_inline_part p"
  shows "(generate_receives w prompt mdl response \<longrightarrow>
            (let r = fst (generateImage w prompt mdl)
             in success r \<and> image r = last_inline (parts (content c)) \<and> image r \<noteq> None \<and>
                rtext r = last_text (parts (content c)) \<and>
                rfinishReason r = Some (finishReason c) \<and> model r = mdl \<and> error r = None)) \<and>
         (edit_receives w prompt imagePath mdl response \<longrightarrow>
            (let r = fst (editImage w prompt imagePath mdl)
             in success r \<and> image r = last_inline (parts (content c)) \<and> image r \<noteq> None \<and>
                rtext r = last_text (parts (content c)) \<and>
                rfinishReason r = Some (finishReason c) \<and> model r = mdl \<and> error r = None))"
proof -
  from assms(2) have "last_inline (parts (content c)) \<noteq> None"
    by (simp add: last_inline_None)
  then obtain d where d: "last_inline (parts (content c)) = Some d"
    by auto
  have ex: "extractResult noImage mdl response =
      \<lparr>success = True, rtext = last_text (parts (content c)), image = Some d,
       error = None, model = mdl, rfinishReason = Some (finishReason c)\<rparr>" for noImage
    by (simp add: extractResult_cases assms(1) d)
  show ?thesis
    by (simp add: generateImage_received editImage_received ex d Let_def)
qed

theorem image_part_extracted_witness:
  "candidates balloon_response =
     Some [candidate_of [TextPart ''Here is your balloon'', InlineDataPart ''image/png'' ''aGk='']] \<and>
   is_inline_part (InlineDataPart ''image/png'' ''aGk='') \<and>
   generate_receives (example_world (Inr balloon_response)) ''a red balloon'' GEMINI_MODELS_FLASH
     balloon_response \<and>
   edit_receives (example_world (Inr balloon_response)) ''a red balloon'' ''/tmp/cat.JPG''
     GEMINI_MODELS_FLASH balloon_response \<and>
   fst (generateImage (example_world (Inr balloon_response)) ''a red balloon'' GEMINI_MODELS_FLASH) =
     \<lparr>success = True, rtext = Some ''Here is your balloon'',
      image = Some \<lparr>mimeType = ''image/png'', data = ''aGk=''\<rparr>, error = None,
      model = GEMINI_MODELS_FLASH, rfinishReason = Some ''STOP''\<rparr> \<and>
   fst (editImage (example_world (Inr balloon_response)) ''a red balloon'' ''/tmp/cat.JPG''
          GEMINI_MODELS_FLASH) =
     \<lparr>success = True, rtext = Some ''Here is your balloon'',
      image = Some \<lparr>mimeType = ''image/png'', data = ''aGk=''\<rparr>, error = None,
      model = GEMINI_MODELS_FLASH, rfinishReason = Some ''STOP''\<rparr>"
proof -
  let ?ps = "[TextPart ''Here is your balloon'', InlineDataPart ''image/png'' ''aGk='']"
  let ?w = "example_world (Inr balloon_response)"
  have c: "candidates balloon_response = Some (candidate_of ?ps # [])"
    by (simp add: balloon_response_def)
  have i: "is_inline_part (InlineDataPart ''image/png'' ''aGk='')"
    by (simp add: is_inline_part_def InlineDataPart_def)
  then have p: "\<exists>p\<in>set (parts (content (candidate_of ?ps))). is_inline_part p"
    by (simp add: candidate_of_def)
  have g: "generate_receives ?w ''a red balloon'' GEMINI_MODELS_FLASH balloon_response"
    by (simp add: example_defs)
  have e: "edit_receives ?w ''a red balloon'' ''/tmp/cat.JPG'' GEMINI_MODELS_FLASH balloon_response"
    by (simp add: example_defs)
  have l: "last_inline ?ps = Some \<lparr>mimeType = ''image/png'', data = ''aGk=''\<rparr>"
    "last_text ?ps = Some ''Here is your balloon''"
    by (simp_all add: last_inline_def last_text_def is_inline_part_def is_text_part_def
        TextPart_def InlineDataPart_def)
  have "fst (generateImage ?w ''a red balloon'' GEMINI_MODELS_FLASH) =
     \<lparr>success = True, rtext = Some ''Here is your balloon'',
      image = Some \<lparr>mimeType = ''image/png'', data = ''aGk=''\<rparr>, error = None,
      model = GEMINI_MODELS_FLASH, rfinishReason = Some ''STOP''\<rparr>"
    using image_part_extracted [OF c p, where w = ?w and prompt = "''a red balloon''"
        and mdl = GEMINI_MODELS_FLASH] g l
    by (intro ImageGenerationResult.equality) (simp_all add: Let_def candidate_of_def)
  moreover have "fst (editImage ?w ''a red balloon'' ''/tmp/cat.JPG'' GEMINI_MODELS_FLASH) =
     \<lparr>success = True, rtext = Some ''Here is your balloon'',
      image = Some \<lparr>mimeType = ''image/png'', data = ''aGk=''\<rparr>, error = None,
      model = GEMINI_MODELS_FLASH, rfinishReason = Some ''STOP''\<rparr>"
    using image_part_extracted [OF c p, where w = ?w and prompt = "''a red balloon''"
        and mdl = GEMINI_MODELS_FLASH and imagePath = "''/tmp/cat.JPG''"] e l
    by (intro ImageGenerationResult.equality) (simp_all add: Let_def candidate_of_def)
  ultimately show ?thesis using c i g e by simp
qed

lemma extractResult_no_inline:
  assumes "candidates response = Some (c # cs)"
    and "\<forall>p\<in>set (parts (content c)). \<not> is_inline_part p"
  shows "extractResult noImage mdl response =
      \<lparr>success = False, rtext = last_text (parts (content c)), image = None,
       error = Some noImage, model = mdl, rfinishReason = None\<rparr>"
proof -
  from assms(2) have "last_inline (parts (content c)) = None"
    by (simp add: last_inline_None)
  then show ?thesis
    by (simp add: extractResult_cases assms(1) failed_def)
qed

lemma edit_result_from_generate:
  "extractResult
     ''No edited image was generated. The model may have refused or encountered an issue.''
     mdl response =
   (let g = extractResult
              ''No image was generated. The model may have refused or encountered an issue.''
              mdl response
    in if error g =
            Some ''No image was generated. The model may have refused or encountered an issue.''
       then g\<lparr>error :=
                Some ''No edited image was generated. The model may have refused or encountered an issue.''\<rparr>
       else g)"
  by (simp add: extractResult_cases failed_def Let_def split: option.splits list.splits)

text \<open>
  Claim C3. When the first candidate of the response has no inline-data part, the result
  has \<open>success = false\<close>, the text of the last text part (none when there is none), no image,
  and the error \<open>No image was generated. ...\<close> from \<open>generateImage\<close>, \<open>No edited image was
  generated. ...\<close> from \<open>editImage\<close>. On one and the same response the two calls return the
  same result up to that error string.
\<close>

theorem no_image_part_fails:
  "(candidates response = Some (c # cs) \<and> (\<forall>p\<in>set (parts (content c)). \<not> is_inline_part p) \<longrightarrow>
      (generate_receives w prompt mdl response \<longrightarrow>
         fst (generateImage w prompt mdl) =
           \<lparr>success = False, rtext = last_text (parts (content c)), image = None,
            error = Some ''No image was generated. The model may have refused or encountered an issue.'',
            model = mdl, rfinishReason = None\<rparr>) \<and>
      (edit_receives w prompt imagePath mdl response \<longrightarrow>
         fst (editImage w prompt imagePath mdl) =
           \<lparr>success = False, rtext = last_text (parts (content c)), image = None,
            error = Some ''No edited image was generated. The model may have refused or encountered an issue.'',
            model = mdl, rfinishReason = None\<rparr>)) \<and>
   (generate_receives w prompt mdl response \<and> edit_receives w' prompt' imagePath mdl response \<longrightarrow>
      fst (editImage w' prompt' imagePath mdl) =
        (let g = fst (generateImage w prompt mdl)
         in if error g =
                 Some ''No image was generated. The model may have refused or encountered an issue.''
            then g\<lparr>error :=
                     Some ''No edited image was generated. The model may have refused or encountered an issue.''\<rparr>
            else g))"
proof (intro conjI impI)
  assume a: "candidates response = Some (c # cs) \<and>
    (\<forall>p\<in>set (parts (content c)). \<not> is_inline_part p)"
  {
    assume "generate_receives w prompt mdl response"
    then show "fst (generateImage w prompt mdl) =
           \<lparr>success = False, rtext = last_text (parts (content c)), image = None,
            error = Some ''No image was generated. The model may have refused or encountered an issue.'',
            model = mdl, rfinishReason = None\<rparr>"
      using a by (simp add: generateImage_received extractResult_no_inline)
  }
  {
    assume "edit_receives w prompt imagePath mdl response"
    then show "fst (editImage w prompt imagePath mdl) =
           \<lparr>success = False, rtext = last_text (parts (content c)), image = None,
            error = Some ''No edited image was generated. The model may have refused or encountered an issue.'',
            model = mdl, rfinishReason = None\<rparr>"
      using a by (simp add: editImage_received extractResult_no_inline)
  }
next
  assume "generate_receives w prompt mdl response \<and> edit_receives w' prompt' imagePath mdl response"
  then have g: "fst (generateImage w prompt mdl) =
      extractResult ''No image was generated. The model may have refused or encountered an issue.''
        mdl response"
    and e: "fst (editImage w' prompt' imagePath mdl) =
      extractResult
        ''No edited image was generated. The model may have refused or encountered an issue.''
        mdl response"
    by (simp_all add: generateImage_received editImage_received)
  show "fst (editImage w' prompt' imagePath mdl) =
        (let g = fst (generateImage w prompt mdl)
         in if error g =
                 Some ''No image was generated. The model may have refused or encountered an issue.''
            then g\<lparr>error :=
                     Some ''No edited image was generated. The model may have refused or encountered an issue.''\<rparr>
            else g)"
    unfolding g e by (rule edit_result_from_generate)
qed

theorem no_image_part_fails_witness:
  "candidates refusal_response = Some [candidate_of [TextPart ''I cannot create that image.'']] \<and>
   \<not> is_inline_part (TextPart ''I cannot create that image.'') \<and>
   generate_receives (example_world (Inr refusal_response)) ''disallowed content''
     GEMINI_MODELS_FLASH refusal_response \<and>
   edit_receives (example_world (Inr refusal_response)) ''disallowed content'' ''/tmp/cat.JPG''
     GEMINI_MODELS_FLASH refusal_response \<and>
   fst (generateImage (example_world (Inr refusal_response)) ''disallowed content''
          GEMINI_MODELS_FLASH) =
     \<lparr>success = False, rtext = Some ''I cannot create that image.'', image = None,
      error = Some ''No image was generated. The model may have refused or encountered an issue.'',
      model = GEMINI_MODELS_FLASH, rfinishReason = None\<rparr> \<and>
   fst (editImage (example_world (Inr refusal_response)) ''disallowed content'' ''/tmp/cat.JPG''
          GEMINI_MODELS_FLASH) =
     \<lparr>success = False, rtext = Some ''I cannot create that image.'', image = None,
      error = Some ''No edited image was generated. The model may have refused or encountered an issue.'',
      model = GEMINI_MODELS_FLASH, rfinishReason = None\<rparr>"
proof -
  let ?ps = "[TextPart ''I cannot create that image.'']"
  let ?w = "example_world (Inr refusal_response)"
  have c: "candidates refusal_response = Some (candidate_of ?ps # [])"
    by (simp add: refusal_response_def)
  have i: "\<not> is_inline_part (TextPart ''I cannot create that image.'')"
    by (simp add: is_inline_part_def TextPart_def)
  then have p: "\<forall>p\<in>set (parts (content (candidate_of ?ps))). \<not> is_inline_part p"
    by (simp add: candidate_of_def)
  have g: "generate_receives ?w ''disallowed content'' GEMINI_MODELS_FLASH refusal_response"
    by (simp add: example_defs)
  have e: "edit_receives ?w ''disallowed content'' ''/tmp/cat.JPG'' GEMINI_MODELS_FLASH
             refusal_response"
    by (simp add: example_defs)
  have l: "last_text (parts (content (candidate_of ?ps))) = Some ''I cannot create that image.''"
    by (simp add: last_text_def is_text_part_def TextPart_def candidate_of_def)
  show ?thesis
    using no_image_part_fails [where response = refusal_response and c = "candidate_of ?ps"
        and cs = "[]" and w = ?w and prompt = "''disallowed content''"
        and mdl = GEMINI_MODELS_FLASH and imagePath = "''/tmp/cat.JPG''"]
      c i p g e l
    by simp
qed

text \<open>
  Claim C4. When the \<open>candidates\<close> of the response are absent or empty, \<open>generateImage\<close> and
  \<open>editImage\<close> return exactly \<open>{success: false, error: "No candidates returned from the API",
  model}\<close>: no text, no image, no finish reason.
\<close>

theorem no_candidates_result:
  assumes "candidates response = None \<or> candidates response = Some []"
  shows "(generate_receives w prompt mdl response \<longrightarrow>
            fst (generateImage w prompt mdl) =
              \<lparr>success = False, rtext = None, image = None,
               error = Some ''No candidates returned from the API'', model = mdl,
               rfinishReason = None\<rparr>) \<and>
         (edit_receives w prompt imagePath mdl response \<longrightarrow>
            fst (editImage w prompt imagePath mdl) =
              \<lparr>success = False, rtext = None, image = None,
               error = Some ''No candidates returned from the API'', model = mdl,
               rfinishReason = None\<rparr>)"
  using assms
  by (auto simp add: generateImage_received editImage_received extractResult_cases failed_def)

theorem no_candidates_result_witness:
  "candidates (no_candidates_response (Some [])) = Some [] \<and>
   generate_receives (example_world (Inr (no_candidates_response (Some [])))) ''a red balloon''
     GEMINI_MODELS_PRO (no_candidates_response (Some [])) \<and>
   edit_receives (example_world (Inr (no_candidates_response (Some [])))) ''a red balloon''
     ''/tmp/cat.JPG'' GEMINI_MODELS_PRO (no_candidates_response (Some [])) \<and>
   fst (generateImage (example_world (Inr (no_candidates_response (Some [])))) ''a red balloon''
          GEMINI_MODELS_PRO) =
     \<lparr>success = False, rtext = None, image = None,
      error = Some ''No candidates returned from the API'', model = GEMINI_MODELS_PRO,
      rfinishReason = None\<rparr> \<and>
   fst (editImage (example_world (Inr (no_candidates_response (Some [])))) ''a red balloon''
          ''/tmp/cat.JPG'' GEMINI_MODELS_PRO) =
     \<lparr>success = False, rtext = None, image = None,
      error = Some ''No candidates returned from the API'', model = GEMINI_MODELS_PRO,
      rfinishReason = None\<rparr>"
proof -
  let ?r = "no_candidates_response (Some [])"
  let ?w = "example_world (Inr ?r)"
  have c: "candidates ?r = Some []"
    by (simp add: no_candidates_response_def)
  then have h: "candidates ?r = None \<or> candidates ?r = Some []"
    by simp
  have g: "generate_receives ?w ''a red balloon'' GEMINI_MODELS_PRO ?r"
    by (simp add: example_defs)
  have e: "edit_receives ?w ''a red balloon'' ''/tmp/cat.JPG'' GEMINI_MODELS_PRO ?r"
    by (simp add: example_defs)
  show ?thesis
    using no_candidates_result [OF h, where w = ?w and prompt = "''a red balloon''"
        and mdl = GEMINI_MODELS_PRO and imagePath = "''/tmp/cat.JPG''"] c g e
    by simp
qed

text \<open>
  Claim C10. A part that has both the \<open>text\<close> key and the \<open>inlineData\<close> key is handled as a
  text part and nothing else: the loop sets the result's text from it and leaves the image
  as it was, so both calls return what they return when the part is replaced by the text
  part \<open>{text}\<close> alone.
\<close>

theorem text_key_wins:
  assumes "ptext part = Some t" and "inlineData part = Some d"
  shows "scanPart result part = result\<lparr>rtext := Some t\<rparr> \<and>
         image (scanPart result part) = image result \<and>
         (candidates response = Some (c # cs) \<and> parts (content c) = before @ part # after \<and>
          response' =
            response\<lparr>candidates :=
              Some (c\<lparr>content := (content c)\<lparr>parts := before @ TextPart t # after\<rparr>\<rparr> # cs)\<rparr> \<longrightarrow>
            (generate_receives w prompt mdl response \<longrightarrow>
               fst (generateImage w prompt mdl) =
                 extractResult
                   ''No image was generated. The model may have refused or encountered an issue.''
                   mdl response') \<and>
            (edit_receives w prompt imagePath mdl response \<longrightarrow>
               fst (editImage w prompt imagePath mdl) =
                 extractResult
                   ''No edited image was generated. The model may have refused or encountered an issue.''
                   mdl response'))"
proof -
  have s: "scanPart r part = scanPart r (TextPart t)" for r
    using assms(1) by (simp add: scanPart_def TextPart_def)
  have x: "extractResult noImage mdl response =
      extractResult noImage mdl
        (response\<lparr>candidates :=
           Some (c\<lparr>content := (content c)\<lparr>parts := before @ TextPart t # after\<rparr>\<rparr> # cs)\<rparr>)"
    if "candidates response = Some (c # cs)" "parts (content c) = before @ part # after"
    for noImage
    using that by (simp add: extractResult_def Let_def s)
  show ?thesis
    using assms(1) x
    by (auto simp add: scanPart_def generateImage_received editImage_received)
qed

theorem text_key_wins_witness:
  "ptext both_keys_part = Some ''caption'' \<and>
   inlineData both_keys_part = Some \<lparr>mimeType = ''image/png'', data = ''aGk=''\<rparr> \<and>
   generate_receives (example_world (Inr both_keys_response)) ''a red balloon''
     GEMINI_MODELS_FLASH both_keys_response \<and>
   fst (generateImage (example_world (Inr both_keys_response)) ''a red balloon''
          GEMINI_MODELS_FLASH) =
     \<lparr>success = False, rtext = Some ''caption'', image = None,
      error = Some ''No image was generated. The model may have refused or encountered an issue.'',
      model = GEMINI_MODELS_FLASH, rfinishReason = None\<rparr>"
proof -
  let ?w = "example_world (Inr both_keys_response)"
  let ?d = "\<lparr>mimeType = ''image/png'', data = ''aGk=''\<rparr>"
  have t: "ptext both_keys_part = Some ''caption''"
    and d: "inlineData both_keys_part = Some ?d"
    by (simp_all add: both_keys_part_def)
  have c: "candidates both_keys_response = Some (candidate_of [both_keys_part] # [])"
    by (simp add: both_keys_response_def)
  have p: "parts (content (candidate_of [both_keys_part])) = [] @ both_keys_part # []"
    by (simp add: candidate_of_def)
  have g: "generate_receives ?w ''a red balloon'' GEMINI_MODELS_FLASH both_keys_response"
    by (simp add: example_defs)
  show ?thesis
    using text_key_wins [OF t d, where response = both_keys_response
        and c = "candidate_of [both_keys_part]" and cs = "[]" and before = "[]" and after = "[]"
        and w = ?w and prompt = "''a red balloon''" and mdl = GEMINI_MODELS_FLASH] c p g t d
    by (simp add: both_keys_response_def candidate_of_def extractResult_def scanPart_def
        TextPart_def Let_def)
qed

section \<open>The error classifier\<close>

lemma or_else_Some [simp]: "s \<noteq> [] \<Longrightarrow> or_else (Some s) d = s"
  by (simp add: or_else_def)

lemma or_else_absent [simp]: "or_else None d = d" "or_else (Some []) d = d"
  by (simp_all add: or_else_def)

lemma handle_response:
  "handleApiError (AxiosError (Some \<lparr>status = st, data_error_message = msg\<rparr>) c m) =
     (if st = 400 then
        ''Error: Invalid request. '' @ or_else msg ''Check your prompt and parameters.''
      else if st = 401 then
        ''Error: Invalid API key. Please check your GEMINI_API_KEY environment variable.''
      else if st = 403 then
        ''Error: Access denied. '' @ or_else msg ''Your API key may not have access to this model.''
      else if st = 404 then
        ''Error: Model not found. Please check the model name.''
      else if st = 429 then
        ''Error: Rate limit exceeded. Please wait before making more requests.''
      else if st = 500 then
        ''Error: Gemini API server error. Please try again later.''
      else if st = 503 then
        ''Error: Gemini API service unavailable. Please try again later.''
      else
        ''Error: API request failed with status '' @ decimal st @ ''. '' @ or_else msg [])"
  by (simp add: handleApiError_def Let_def)

lemma handle_response_key:
  "take 23 (handleApiError (AxiosError (Some \<lparr>status = st, data_error_message = msg\<rparr>) c m)) =
     (if st = 400 then ''Error: Invalid request.''
      else if st = 401 then ''Error: Invalid API key.''
      else if st = 403 then
        ''Error: Access denied. '' @ take 1 (or_else msg ''Your API key may not have access to this model.'')
      else if st = 404 then ''Error: Model not found.''
      else if st = 429 then ''Error: Rate limit excee''
      else if st = 500 then ''Error: Gemini API serve''
      else if st = 503 then ''Error: Gemini API servi''
      else ''Error: API request fail'')"
  by (simp add: handle_response)


lemma handle_response_distinct:
  assumes "st \<noteq> st'"
    and "handleApiError (AxiosError (Some \<lparr>status = st, data_error_message = msg\<rparr>) c m) =
         handleApiError (AxiosError (Some \<lparr>status = st', data_error_message = msg'\<rparr>) c' m')"
  shows "st \<notin> {400, 401, 403, 404, 429, 500, 503} \<and> st' \<notin> {400, 401, 403, 404, 429, 500, 503}"
proof -
  from assms(2) have
    "take 23 (handleApiError (AxiosError (Some \<lparr>status = st, data_error_message = msg\<rparr>) c m)) =
     take 23 (handleApiError (AxiosError (Some \<lparr>status = st', data_error_message = msg'\<rparr>) c' m'))"
    by simp
  then show ?thesis
    using assms(1) unfolding handle_response_key
    by (simp split: if_splits)
qed


text \<open>
  Claim C5. \<open>handleApiError\<close> returns a string for every thrown value (it is a total
  function: each branch of its case analysis ends in a string). For an Axios error that
  carries an HTTP response it returns, by status: 400, \<open>Error: Invalid request.\<close> followed by
  the upstream message or a hint; 401, the fixed invalid-API-key message; 403, \<open>Error: Access
  denied.\<close> followed by the upstream message or a hint; 404, 429, 500 and 503, one fixed
  message each; any other status, a message that contains the status number. Two different
  statuses never give the same message unless both fall under the default template.
\<close>

theorem handleApiError_by_status:
  "(let h = (\<lambda>st. handleApiError (AxiosError (Some \<lparr>status = st, data_error_message = msg\<rparr>) c m))
    in h 400 = ''Error: Invalid request. '' @ or_else msg ''Check your prompt and parameters.'' \<and>
       h 401 = ''Error: Invalid API key. Please check your GEMINI_API_KEY environment variable.'' \<and>
       h 403 = ''Error: Access denied. '' @
                 or_else msg ''Your API key may not have access to this model.'' \<and>
       h 404 = ''Error: Model not found. Please check the model name.'' \<and>
       h 429 = ''Error: Rate limit exceeded. Please wait before making more requests.'' \<and>
       h 500 = ''Error: Gemini API server error. Please try again later.'' \<and>
       h 503 = ''Error: Gemini API service unavailable. Please try again later.'' \<and>
       (st \<notin> {400, 401, 403, 404, 429, 500, 503} \<longrightarrow>
          h st = ''Error: API request failed with status '' @ decimal st @ ''. '' @ or_else msg [])) \<and>
   (st \<noteq> st' \<and>
    handleApiError (AxiosError (Some \<lparr>status = st, data_error_message = msg\<rparr>) c m) =
    handleApiError (AxiosError (Some \<lparr>status = st', data_error_message = msg'\<rparr>) c' m') \<longrightarrow>
      st \<notin> {400, 401, 403, 404, 429, 500, 503} \<and> st' \<notin> {400, 401, 403, 404, 429, 500, 503}) \<and>
   (\<exists>s. handleApiError e = ''Error: '' @ s)"
proof (intro conjI)
  show "let h = (\<lambda>st. handleApiError (AxiosError (Some \<lparr>status = st, data_error_message = msg\<rparr>) c m))
    in h 400 = ''Error: Invalid request. '' @ or_else msg ''Check your prompt and parameters.'' \<and>
       h 401 = ''Error: Invalid API key. Please check your GEMINI_API_KEY environment variable.'' \<and>
       h 403 = ''Error: Access denied. '' @
                 or_else msg ''Your API key may not have access to this model.'' \<and>
       h 404 = ''Error: Model not found. Please check the model name.'' \<and>
       h 429 = ''Error: Rate limit exceeded. Please wait before making more requests.'' \<and>
       h 500 = ''Error: Gemini API server error. Please try again later.'' \<and>
       h 503 = ''Error: Gemini API service unavailable. Please try again later.'' \<and>
       (st \<notin> {400, 401, 403, 404, 429, 500, 503} \<longrightarrow>
          h st = ''Error: API request failed with status '' @ decimal st @ ''. '' @ or_else msg [])"
    unfolding Let_def handle_response by simp
  show "st \<noteq> st' \<and>
    handleApiError (AxiosError (Some \<lparr>status = st, data_error_message = msg\<rparr>) c m) =
    handleApiError (AxiosError (Some \<lparr>status = st', data_error_message = msg'\<rparr>) c' m') \<longrightarrow>
      st \<notin> {400, 401, 403, 404, 429, 500, 503} \<and> st' \<notin> {400, 401, 403, 404, 429, 500, 503}"
    using handle_response_distinct [of st st' msg c m msg' c' m'] by blast
  show "\<exists>s. handleApiError e = ''Error: '' @ s"
    by (simp add: handleApiError_def Let_def split: thrown.splits option.splits)
qed

theorem handleApiError_by_status_witness:
  "(418::nat) \<notin> {400, 401, 403, 404, 429, 500, 503} \<and>
   handleApiError (AxiosError (Some \<lparr>status = 418, data_error_message = Some ''teapot''\<rparr>)
                     None ''Request failed with status code 418'') =
     ''Error: API request failed with status 418. teapot'' \<and>
   handleApiError (AxiosError (Some \<lparr>status = 400, data_error_message = Some ''teapot''\<rparr>)
                     None ''Request failed with status code 418'') =
     ''Error: Invalid request. teapot'' \<and>
   (418::nat) \<noteq> 400"
proof -
  have d: "decimal 418 = ''418''"
    by code_simp
  have h: "(418::nat) \<notin> {400, 401, 403, 404, 429, 500, 503}"
    by simp
  show ?thesis
    using handleApiError_by_status [where st = 418 and msg = "Some ''teapot''" and c = None
        and m = "''Request failed with status code 418''"] h d
    by (simp add: Let_def)
qed

section \<open>The MIME type of a path\<close>

text \<open>
  The extension is empty or starts with a dot, so the lookup \<open>mimeTypes[ext]\<close> never hits a
  property that the object literal inherits: the table of five entries is all it can find.
\<close>

lemma extname_shape: "extname p = [] \<or> (\<exists>e. extname p = CHR ''.'' # e)"
  by (simp add: extname_def Let_def)

text \<open>
  Claim C9. For every file path \<open>getMimeTypeFromPath\<close> returns a MIME type, decided by the
  extension of the path with upper and lower case identified: \<open>.png\<close> gives \<open>image/png\<close>,
  \<open>.jpg\<close> and \<open>.jpeg\<close> give \<open>image/jpeg\<close>, \<open>.webp\<close> gives \<open>image/webp\<close>, \<open>.gif\<close> gives
  \<open>image/gif\<close>, and every other extension, the empty one included, gives \<open>image/png\<close>.
\<close>

theorem getMimeTypeFromPath_table:
  "(let ext = toLowerCase (extname filePath); m = getMimeTypeFromPath filePath
    in (ext = ''.png'' \<longrightarrow> m = ''image/png'') \<and>
       (ext = ''.jpg'' \<or> ext = ''.jpeg'' \<longrightarrow> m = ''image/jpeg'') \<and>
       (ext = ''.webp'' \<longrightarrow> m = ''image/webp'') \<and>
       (ext = ''.gif'' \<longrightarrow> m = ''image/gif'') \<and>
       (ext \<notin> {''.png'', ''.jpg'', ''.jpeg'', ''.webp'', ''.gif''} \<longrightarrow> m = ''image/png'') \<and>
       m \<in> {''image/png'', ''image/jpeg'', ''image/webp'', ''image/gif''}) \<and>
   (toLowerCase (extname filePath) = toLowerCase (extname filePath') \<longrightarrow>
      getMimeTypeFromPath filePath = getMimeTypeFromPath filePath')"
  by (simp add: getMimeTypeFromPath_def mimeTypes_def Let_def)

theorem getMimeTypeFromPath_table_witness:
  "toLowerCase (extname ''/tmp/cat.JPG'') = ''.jpg'' \<and>
   getMimeTypeFromPath ''/tmp/cat.JPG'' = ''image/jpeg'' \<and>
   toLowerCase (extname ''/tmp/cat.JPG'') = toLowerCase (extname ''photos/Cat.jpg'') \<and>
   getMimeTypeFromPath ''photos/Cat.jpg'' = ''image/jpeg'' \<and>
   toLowerCase (extname ''/tmp/notes'') \<notin> {''.png'', ''.jpg'', ''.jpeg'', ''.webp'', ''.gif''} \<and>
   getMimeTypeFromPath ''/tmp/notes'' = ''image/png''"
proof -
  have a: "toLowerCase (extname ''/tmp/cat.JPG'') = ''.jpg''"
    by code_simp
  have b: "toLowerCase (extname ''photos/Cat.jpg'') = ''.jpg''"
    by code_simp
  have c: "toLowerCase (extname ''/tmp/notes'') = []"
    by code_simp
  show ?thesis
    using getMimeTypeFromPath_table [of "''/tmp/cat.JPG''" "''photos/Cat.jpg''"]
      getMimeTypeFromPath_table [of "''/tmp/notes''" "''/tmp/notes''"] a b c
    by (auto simp add: Let_def)
qed
section \<open>The API key\<close>

lemma getApiKey_missing:
  "falsy (GEMINI_API_KEY w) \<Longrightarrow>
   getApiKey w =
     Inl (JsError ''GEMINI_API_KEY environment variable is required. Get your API key from https://aistudio.google.com/apikey'')"
  by (simp add: getApiKey_def falsy_def split: option.splits)

lemma makeGeminiRequest_missing:
  "falsy (GEMINI_API_KEY w) \<Longrightarrow>
   makeGeminiRequest w mdl request =
     (Inl (JsError ''GEMINI_API_KEY environment variable is required. Get your API key from https://aistudio.google.com/apikey''),
      [])"
  by (simp add: makeGeminiRequest_def getApiKey_missing)

text \<open>
  Claim C6, as stated, fails: the absence of the key is not a failure of construction. With
  no key in the environment \<open>main\<close> logs three warning lines and the server runs; the call
  made afterwards is what fails, without a POST; and the same call succeeds once the
  variable is set, since every call reads the environment anew.
\<close>

theorem missing_key_startup_counterexample:
  "falsy (GEMINI_API_KEY keyless_world) \<and>
   main keyless_world None =
     Running [''WARNING: GEMINI_API_KEY environment variable is not set.'',
              ''Get your API key from https://aistudio.google.com/apikey'',
              ''The server will start but API calls will fail without a valid key.'',
              ''Nanobanana MCP server running via stdio''] \<and>
   generateImage keyless_world ''a red balloon'' GEMINI_MODELS_FLASH =
     (\<lparr>success = False, rtext = None, image = None,
       error = Some ''Error: GEMINI_API_KEY environment variable is required. Get your API key from https://aistudio.google.com/apikey'',
       model = GEMINI_MODELS_FLASH, rfinishReason = None\<rparr>, []) \<and>
   success (fst (generateImage (keyless_world\<lparr>GEMINI_API_KEY := Some ''test-key''\<rparr>)
                   ''a red balloon'' GEMINI_MODELS_FLASH))"
  by (simp add: keyless_world_def falsy_def main_def example_defs handleApiError_def error_text_def)

text \<open>
  Claim C6, amended. When the variable \<open>GEMINI_API_KEY\<close> is unset or empty, every request
  fails before any network activity: \<open>makeGeminiRequest\<close> throws the configuration error
  without a POST, \<open>generateImage\<close> returns the failed result whose error names the variable,
  \<open>editImage\<close> does the same when it could read the image file and issues no POST in any
  case. The check is made in each call; startup with no key logs a warning and goes on.
\<close>

theorem missing_key_fails_each_call:
  assumes "falsy (GEMINI_API_KEY w)"
  shows "makeGeminiRequest w mdl request =
           (Inl (JsError ''GEMINI_API_KEY environment variable is required. Get your API key from https://aistudio.google.com/apikey''),
            []) \<and>
         generateImage w prompt mdl =
           (failed ''Error: GEMINI_API_KEY environment variable is required. Get your API key from https://aistudio.google.com/apikey''
              mdl, []) \<and>
         (readFile w imagePath = Inr imageBuffer \<longrightarrow>
            editImage w prompt imagePath mdl =
              (failed ''Error: GEMINI_API_KEY environment variable is required. Get your API key from https://aistudio.google.com/apikey''
                 mdl, [])) \<and>
         snd (editImage w prompt imagePath mdl) = [] \<and>
         sublist ''GEMINI_API_KEY'' (the (error (fst (generateImage w prompt mdl)))) \<and>
         main w None =
           Running [''WARNING: GEMINI_API_KEY environment variable is not set.'',
                    ''Get your API key from https://aistudio.google.com/apikey'',
                    ''The server will start but API calls will fail without a valid key.'',
                    ''Nanobanana MCP server running via stdio'']"
proof -
  note m = makeGeminiRequest_missing [OF assms]
  have g: "generateImage w prompt mdl =
           (failed ''Error: GEMINI_API_KEY environment variable is required. Get your API key from https://aistudio.google.com/apikey''
              mdl, [])"
    by (simp add: generateImage_def m handleApiError_def error_text_def)
  have e: "editImage w prompt imagePath mdl =
              (failed ''Error: GEMINI_API_KEY environment variable is required. Get your API key from https://aistudio.google.com/apikey''
                 mdl, [])" if "readFile w imagePath = Inr imageBuffer"
    using that by (simp add: editImage_def m handleApiError_def error_text_def)
  have s: "snd (editImage w prompt imagePath mdl) = []"
    by (simp add: editImage_def m split: sum.splits)
  have "''Error: GEMINI_API_KEY environment variable is required. Get your API key from https://aistudio.google.com/apikey'' =
        ''Error: '' @ ''GEMINI_API_KEY'' @
        '' environment variable is required. Get your API key from https://aistudio.google.com/apikey''"
    by simp
  then have n: "sublist ''GEMINI_API_KEY''
      ''Error: GEMINI_API_KEY environment variable is required. Get your API key from https://aistudio.google.com/apikey''"
    unfolding sublist_def by blast
  have r: "main w None =
           Running [''WARNING: GEMINI_API_KEY environment variable is not set.'',
                    ''Get your API key from https://aistudio.google.com/apikey'',
                    ''The server will start but API calls will fail without a valid key.'',
                    ''Nanobanana MCP server running via stdio'']"
    using assms by (simp add: main_def)
  show ?thesis
    using m g e s r n by (simp add: failed_def)
qed

theorem missing_key_fails_each_call_witness:
  "falsy (GEMINI_API_KEY keyless_world) \<and>
   readFile keyless_world ''/tmp/cat.JPG'' = Inr [104, 105] \<and>
   editImage keyless_world ''make it red'' ''/tmp/cat.JPG'' GEMINI_MODELS_PRO =
     (failed ''Error: GEMINI_API_KEY environment variable is required. Get your API key from https://aistudio.google.com/apikey''
        GEMINI_MODELS_PRO, []) \<and>
   snd (generateImage keyless_world ''make it red'' GEMINI_MODELS_PRO) = []"
proof -
  have k: "falsy (GEMINI_API_KEY keyless_world)"
    by (simp add: keyless_world_def falsy_def)
  have f: "readFile keyless_world ''/tmp/cat.JPG'' = Inr [104, 105]"
    by (simp add: keyless_world_def example_world_def)
  show ?thesis
    using missing_key_fails_each_call [OF k, where prompt = "''make it red''"
        and imagePath = "''/tmp/cat.JPG''" and mdl = GEMINI_MODELS_PRO
        and imageBuffer = "[104, 105]"] k f
    by simp
qed

section \<open>The tool interface\<close>

lemmas tool_defs =
  z_string_def ModelSchema_def strict_keys_def issues_def z_both_def GenerateImageSchema_def
  EditImageSchema_def nanobanana_generate_image_def generate_image_handler_def
  saveImageToFile_def optional_key_def or_else_def error_text_def

text \<open>
  Claim C7 states that the edit operation takes a prompt, base64 image bytes, a MIME type
  and a model, which is how the handler of \<open>nanobanana_edit_image\<close> calls it and how the tool
  describes itself. \<open>editImage\<close> has three parameters, the prompt, a file path and the model.
  Called with the base64 text \<open>aGk=\<close> and the MIME type \<open>image/jpeg\<close> in second and third
  place, it tries to read a file named \<open>aGk=\<close> and reports \<open>image/jpeg\<close> as the model; given a
  path, it sends the bytes of that file under the MIME type of the path's extension; and
  the input schema of the tool rejects the keys \<open>image_base64\<close> and \<open>image_mime_type\<close>.
\<close>

theorem editImage_takes_a_path:
  "editImage (example_world (Inr balloon_response)) ''make it red'' ''aGk='' ''image/jpeg'' =
     (\<lparr>success = False, rtext = None, image = None,
       error = Some ''Failed to read image file: ENOENT: no such file or directory, open aGk='',
       model = ''image/jpeg'', rfinishReason = None\<rparr>, []) \<and>
   map body (snd (editImage (example_world (Inr balloon_response)) ''make it red''
                    ''/tmp/cat.JPG'' GEMINI_MODELS_FLASH)) =
     [editRequest ''make it red'' ''image/jpeg'' ''aGk=''] \<and>
   EditImageSchema
     [(''prompt'', JString ''make it red''), (''image_base64'', JString ''aGk=''),
      (''image_mime_type'', JString ''image/jpeg''), (''output_path'', JString ''/tmp/out.png'')] =
     Inl [Required ''image_path'', UnrecognizedKeys [''image_base64'', ''image_mime_type'']]"
proof (intro conjI)
  show "editImage (example_world (Inr balloon_response)) ''make it red'' ''aGk='' ''image/jpeg'' =
     (\<lparr>success = False, rtext = None, image = None,
       error = Some ''Failed to read image file: ENOENT: no such file or directory, open aGk='',
       model = ''image/jpeg'', rfinishReason = None\<rparr>, [])"
    by (simp add: editImage_def example_world_def failed_def error_text_def)
  have m: "getMimeTypeFromPath ''/tmp/cat.JPG'' = ''image/jpeg''"
    by code_simp
  show "map body (snd (editImage (example_world (Inr balloon_response)) ''make it red''
                    ''/tmp/cat.JPG'' GEMINI_MODELS_FLASH)) =
     [editRequest ''make it red'' ''image/jpeg'' ''aGk='']"
    by (simp add: editImage_def example_world_def makeGeminiRequest_def getApiKey_def m
        b64_def base64_alphabet_def Let_def)
  show "EditImageSchema
     [(''prompt'', JString ''make it red''), (''image_base64'', JString ''aGk=''),
      (''image_mime_type'', JString ''image/jpeg''), (''output_path'', JString ''/tmp/out.png'')] =
     Inl [Required ''image_path'', UnrecognizedKeys [''image_base64'', ''image_mime_type'']]"
    by (simp add: tool_defs Let_def)
qed


text \<open>
  Claim C8 states that the output path is optional and that a call without it reports the
  image inline. Both input schemas declare \<open>output_path\<close> without \<open>.optional()\<close>: a call of the
  generate tool with a prompt alone is rejected before the handler runs, and so is an edit
  call without the key. With the path the image is saved and the report has the key
  \<open>saved_to\<close>. The handler itself has the inline branch, which it takes when it is handed an
  empty path; the schema lets no such value through.
\<close>

theorem output_path_is_required:
  "nanobanana_generate_image (example_world (Inr balloon_response))
     [(''prompt'', JString ''a red balloon'')] =
     (InvalidParams [Required ''output_path''], [], []) \<and>
   EditImageSchema [(''prompt'', JString ''make it red''), (''image_path'', JString ''/tmp/cat.JPG'')] =
     Inl [Required ''output_path''] \<and>
   nanobanana_generate_image (example_world (Inr balloon_response))
     [(''prompt'', JString ''a red balloon''), (''output_path'', JString [])] =
     (InvalidParams [TooSmall ''output_path'' ''Output path is required''], [], []) \<and>
   fst (nanobanana_generate_image (example_world (Inr balloon_response))
          [(''prompt'', JString ''a red balloon''), (''output_path'', JString ''/tmp/out.png'')]) =
     Content [(''success'', JBool True), (''saved_to'', JString ''/tmp/out.png''),
              (''mime_type'', JString ''image/png''), (''model'', JString GEMINI_MODELS_FLASH),
              (''text'', JString ''Here is your balloon'')] \<and>
   snd (snd (nanobanana_generate_image (example_world (Inr balloon_response))
          [(''prompt'', JString ''a red balloon''), (''output_path'', JString ''/tmp/out.png'')])) =
     [(''/tmp/out.png'', ''aGk='')] \<and>
   fst (generate_image_handler (example_world (Inr balloon_response))
          \<lparr>g_prompt = ''a red balloon'', g_model = GEMINI_MODELS_FLASH, g_output_path = []\<rparr>) =
     Content [(''success'', JBool True), (''image_base64'', JString ''aGk=''),
              (''mime_type'', JString ''image/png''), (''model'', JString GEMINI_MODELS_FLASH),
              (''text'', JString ''Here is your balloon'')]"
proof (intro conjI)
  show "nanobanana_generate_image (example_world (Inr balloon_response))
     [(''prompt'', JString ''a red balloon'')] =
     (InvalidParams [Required ''output_path''], [], [])"
    by (simp add: tool_defs Let_def)
  show "EditImageSchema
      [(''prompt'', JString ''make it red''), (''image_path'', JString ''/tmp/cat.JPG'')] =
     Inl [Required ''output_path'']"
    by (simp add: tool_defs Let_def)
  show "nanobanana_generate_image (example_world (Inr balloon_response))
     [(''prompt'', JString ''a red balloon''), (''output_path'', JString [])] =
     (InvalidParams [TooSmall ''output_path'' ''Output path is required''], [], [])"
    by (simp add: tool_defs Let_def)
  have "fst (generateImage (example_world (Inr balloon_response)) ''a red balloon''
             GEMINI_MODELS_FLASH) =
      \<lparr>success = True, rtext = Some ''Here is your balloon'',
       image = Some \<lparr>mimeType = ''image/png'', data = ''aGk=''\<rparr>, error = None,
       model = GEMINI_MODELS_FLASH, rfinishReason = Some ''STOP''\<rparr>"
    by (simp add: example_defs split: prod.splits)
  then obtain posts where g: "generateImage (example_world (Inr balloon_response))
      ''a red balloon'' GEMINI_MODELS_FLASH =
      (\<lparr>success = True, rtext = Some ''Here is your balloon'',
        image = Some \<lparr>mimeType = ''image/png'', data = ''aGk=''\<rparr>, error = None,
        model = GEMINI_MODELS_FLASH, rfinishReason = Some ''STOP''\<rparr>, posts)"
    by (cases "generateImage (example_world (Inr balloon_response)) ''a red balloon''
          GEMINI_MODELS_FLASH") simp
  have p: "GenerateImageSchema
      [(''prompt'', JString ''a red balloon''), (''output_path'', JString ''/tmp/out.png'')] =
      Inr \<lparr>g_prompt = ''a red balloon'', g_model = GEMINI_MODELS_FLASH,
           g_output_path = ''/tmp/out.png''\<rparr>"
    by (simp add: tool_defs Let_def)
  have w: "writeFile (example_world (Inr balloon_response)) ''/tmp/out.png'' ''aGk='' = None"
    by (simp add: example_world_def)
  have h: "generate_image_handler (example_world (Inr balloon_response))
      \<lparr>g_prompt = ''a red balloon'', g_model = GEMINI_MODELS_FLASH,
       g_output_path = ''/tmp/out.png''\<rparr> =
     (Content [(''success'', JBool True), (''saved_to'', JString ''/tmp/out.png''),
               (''mime_type'', JString ''image/png''), (''model'', JString GEMINI_MODELS_FLASH),
               (''text'', JString ''Here is your balloon'')],
      posts, [(''/tmp/out.png'', ''aGk='')])"
    by (simp add: generate_image_handler_def g saveImageToFile_def optional_key_def w)
  show "fst (nanobanana_generate_image (example_world (Inr balloon_response))
          [(''prompt'', JString ''a red balloon''), (''output_path'', JString ''/tmp/out.png'')]) =
     Content [(''success'', JBool True), (''saved_to'', JString ''/tmp/out.png''),
              (''mime_type'', JString ''image/png''), (''model'', JString GEMINI_MODELS_FLASH),
              (''text'', JString ''Here is your balloon'')]"
    by (simp add: nanobanana_generate_image_def p h)
  show "snd (snd (nanobanana_generate_image (example_world (Inr balloon_response))
          [(''prompt'', JString ''a red balloon''), (''output_path'', JString ''/tmp/out.png'')])) =
     [(''/tmp/out.png'', ''aGk='')]"
    by (simp add: nanobanana_generate_image_def p h)
  show "fst (generate_image_handler (example_world (Inr balloon_response))
          \<lparr>g_prompt = ''a red balloon'', g_model = GEMINI_MODELS_FLASH, g_output_path = []\<rparr>) =
     Content [(''success'', JBool True), (''image_base64'', JString ''aGk=''),
              (''mime_type'', JString ''image/png''), (''model'', JString GEMINI_MODELS_FLASH),
              (''text'', JString ''Here is your balloon'')]"
    by (simp add: generate_image_handler_def g optional_key_def)
qed


text \<open>
  Through the schema no call reaches the inline branch of the handler: whatever the
  arguments and the world, the report of the generate tool has no key \<open>image_base64\<close>.
\<close>

lemma z_string_min1:
  "z_string key (Some (1, msg)) maximum v = Inr s \<Longrightarrow> s \<noteq> []"
  by (auto simp add: z_string_def Let_def split: option.splits jvalue.splits if_splits)

lemma GenerateImageSchema_output_path:
  assumes "GenerateImageSchema raw = Inr args"
  shows "g_output_path args \<noteq> []"
proof -
  from assms have
    "z_string ''output_path'' (Some (1, ''Output path is required'')) None
       (map_of raw ''output_path'') = Inr (g_output_path args)"
    unfolding GenerateImageSchema_def z_both_def
    by (auto split: sum.splits)
  then show ?thesis
    by (rule z_string_min1)
qed

lemma inline_report_unreachable:
  assumes "fst (nanobanana_generate_image w raw) = Content obj"
  shows "map_of obj ''image_base64'' = None"
proof (cases "GenerateImageSchema raw")
  case (Inl found)
  with assms show ?thesis
    by (simp add: nanobanana_generate_image_def)
next
  case (Inr args)
  then have "g_output_path args \<noteq> []"
    by (rule GenerateImageSchema_output_path)
  with assms Inr show ?thesis
    by (auto simp add: nanobanana_generate_image_def generate_image_handler_def
        saveImageToFile_def optional_key_def split: prod.splits option.splits if_splits)
qed

end
